theory Spec2Isabelle
  imports Main
begin

section \<open>The character-art escaper (transfom.py)\<close>

text \<open>
  The program is one function, \<open>main\<close>: it prints a prompt, reads lines from standard
  input until an empty line or the end of the input, escapes backslashes and double
  quotes in every line read, and prints each escaped line as a quoted string-literal
  fragment, closed by an empty fragment.

  A Python 3 \<open>str\<close> is a sequence of Unicode code points; a code point is modelled as a
  natural number and a string as the list of its code points. Standard input is modelled
  at the level at which \<open>input()\<close> sees it: the finite sequence of the lines still to be
  read (each without its line terminator), after which the stream is exhausted. Standard
  output is the text written so far.
\<close>

subsection \<open>Strings\<close>

type_synonym pychar = nat
type_synonym pystr = "pychar list"

definition backslash :: pychar where
  "backslash = 0x5C"

definition dquote :: pychar where
  "dquote = 0x22"

definition newline :: pychar where
  "newline = 0x0A"

text \<open>\<open>s.startswith(old)\<close>: \<open>old\<close> occurs in \<open>s\<close> at position 0.\<close>

fun startswith :: "pystr \<Rightarrow> pystr \<Rightarrow> bool" where
  "startswith s [] = True"
| "startswith [] (c # old) = False"
| "startswith (d # s) (c # old) = (d = c \<and> startswith s old)"

text \<open>
  \<open>s.replace(old, new)\<close> of Python's \<open>str\<close>: every occurrence of \<open>old\<close> in \<open>s\<close>, found
  from left to right without overlap, is replaced by \<open>new\<close>. For an empty \<open>old\<close>, Python
  puts \<open>new\<close> before every character and at the end.
\<close>

function replace :: "pystr \<Rightarrow> pystr \<Rightarrow> pystr \<Rightarrow> pystr" where
  "replace [] old new = (if old = [] then new else [])"
| "replace (c # s) old new =
     (if old = [] then new @ c # replace s old new
      else if startswith (c # s) old then new @ replace (drop (length old) (c # s)) old new
      else c # replace s old new)"
  by pat_completeness auto
termination
  by (relation "measure (\<lambda>(s, old, new). length s)") (auto simp: neq_Nil_conv)

text \<open>
  The escaping transform, the body of the comprehension
  \<^verbatim>\<open>line.replace("\\", "\\\\").replace('"', '\\"')\<close>.
  The Python literals are: one backslash, two backslashes, one double quote, and a
  backslash followed by a double quote.
\<close>

definition escape :: "pystr \<Rightarrow> pystr" where
  "escape line =
     replace (replace line [backslash] [backslash, backslash]) [dquote] [backslash, dquote]"

subsection \<open>Standard input and output\<close>

text \<open>
  The exceptions of \<open>input()\<close>: \<open>EOFError\<close> when standard input is exhausted,
  \<open>KeyboardInterrupt\<close> when the user interrupts the program while it waits for a line,
  and \<open>UnicodeDecodeError\<close> when the bytes of a line are not text in the encoding of
  standard input. The program handles the first one only.
\<close>

datatype py_error = EOFError | KeyboardInterrupt | UnicodeDecodeError

record world =
  stdin :: "pystr list"
  stdout :: pystr

text \<open>\<open>input()\<close>: the next line of standard input, or \<open>EOFError\<close> when none is left.\<close>

definition input :: "'a world_scheme \<Rightarrow> py_error + (pystr \<times> 'a world_scheme)" where
  "input w =
     (case stdin w of
        [] \<Rightarrow> Inl EOFError
      | line # rest \<Rightarrow> Inr (line, w\<lparr>stdin := rest\<rparr>))"

text \<open>\<open>print(s)\<close>: writes \<open>s\<close> and a newline to standard output.\<close>

definition print :: "pystr \<Rightarrow> 'a world_scheme \<Rightarrow> 'a world_scheme" where
  "print s w = w\<lparr>stdout := stdout w @ s @ [newline]\<rparr>"

subsection \<open>The program\<close>

text \<open>The argument of the first \<open>print\<close>, the prompt (fourteen CJK code points).\<close>

definition prompt :: pystr where
  "prompt = [0x8BF7, 0x8F93, 0x5165, 0x5B57, 0x7B26, 0x753B, 0xFF0C,
             0x8F93, 0x5165, 0x7A7A, 0x884C, 0x7ED3, 0x675F, 0xFF1A]"

text \<open>
  The argument of the \<open>print\<close> before the output loop: a newline, the header text and a
  newline.
\<close>

definition header :: pystr where
  "header = [newline, 0x8F6C, 0x4E49, 0x540E, 0x7684, 0x5B57, 0x7B26, 0x753B, 0xFF1A, newline]"

text \<open>
  The collecting loop:
  \<^verbatim>\<open>
    while True:
        try:
            line = input()
        except EOFError:
            break
        if line == "":
            break
        lines.append(line)
  \<close>
  It takes the world and the buffer \<open>lines\<close> built so far and returns the buffer and the
  world at the \<open>break\<close>. The handler names \<open>EOFError\<close>: any other exception leaves the loop.
  Each iteration consumes one line of the finite input, which is the measure of its
  termination.
\<close>

function collect :: "'a world_scheme \<Rightarrow> pystr list \<Rightarrow> py_error + (pystr list \<times> 'a world_scheme)" where
  "collect w lines =
     (case input w of
        Inl EOFError \<Rightarrow> Inr (lines, w)
      | Inl e \<Rightarrow> Inl e
      | Inr (line, w') \<Rightarrow>
          if line = [] then Inr (lines, w')
          else collect w' (lines @ [line]))"
  by pat_completeness auto
termination
  by (relation "measure (\<lambda>(w, lines). length (stdin w))")
     (auto simp: input_def split: list.splits)

declare collect.simps [simp del]

text \<open>The comprehension \<^verbatim>\<open>[... for line in lines]\<close> that escapes every collected line.\<close>

definition escaped_lines :: "pystr list \<Rightarrow> pystr list" where
  "escaped_lines lines = map escape lines"

text \<open>
  The f-string \<^verbatim>\<open>f'"{l}\\n" +'\<close>: a double quote, \<open>l\<close>, a backslash, the letter n, a
  double quote, a space and a plus sign.
\<close>

definition fragment :: "pystr \<Rightarrow> pystr" where
  "fragment l = [dquote] @ l @ [backslash, 0x6E, dquote, 0x20, 0x2B]"

text \<open>The output loop \<^verbatim>\<open>for l in escaped_lines: print(...)\<close>.\<close>

fun emit :: "pystr list \<Rightarrow> 'a world_scheme \<Rightarrow> 'a world_scheme" where
  "emit [] w = w"
| "emit (l # ls) w = emit ls (print (fragment l) w)"

text \<open>
  The formatting phase, everything after the collecting loop: the escaping step, the
  header, the output loop and the closing empty fragment \<^verbatim>\<open>""\<close>.
\<close>

definition formatting :: "pystr list \<Rightarrow> 'a world_scheme \<Rightarrow> 'a world_scheme" where
  "formatting lines w =
     print [dquote, dquote] (emit (escaped_lines lines) (print header w))"

text \<open>
  The whole of \<open>main\<close>. An exception that leaves the collecting loop would end the run
  as an error.
\<close>

definition main :: "'a world_scheme \<Rightarrow> py_error + 'a world_scheme" where
  "main w =
     (case collect (print prompt w) [] of
        Inl e \<Rightarrow> Inl e
      | Inr (lines, w') \<Rightarrow> Inr (formatting lines w'))"

subsection \<open>Input that ends in an exception\<close>

text \<open>
  In the world above, reading fails by exhaustion only. The record \<open>tty\<close> extends it by
  the way in which the input ends: \<open>ending\<close> is the exception that \<open>input()\<close> raises once
  the lines of \<open>stdin\<close> are used up. It is \<open>EOFError\<close> for an input that is simply
  exhausted, \<open>KeyboardInterrupt\<close> for a user who interrupts the program after typing these
  lines, \<open>UnicodeDecodeError\<close> for an input whose next bytes cannot be decoded. Nothing is
  read after an exception that is not handled, so a stream is its lines and its ending.
\<close>

record tty = world +
  ending :: py_error

definition input_tty :: "'a tty_scheme \<Rightarrow> py_error + (pystr \<times> 'a tty_scheme)" where
  "input_tty w =
     (case stdin w of
        [] \<Rightarrow> Inl (ending w)
      | line # rest \<Rightarrow> Inr (line, w\<lparr>stdin := rest\<rparr>))"

text \<open>
  The collecting loop and \<open>main\<close> over such an input. A run that an exception ends
  returns the exception and the world at that point, whose \<open>stdout\<close> is the text written
  before the failure.
\<close>

function collect_tty ::
  "'a tty_scheme \<Rightarrow> pystr list \<Rightarrow> (py_error \<times> 'a tty_scheme) + (pystr list \<times> 'a tty_scheme)" where
  "collect_tty w lines =
     (case input_tty w of
        Inl EOFError \<Rightarrow> Inr (lines, w)
      | Inl e \<Rightarrow> Inl (e, w)
      | Inr (line, w') \<Rightarrow>
          if line = [] then Inr (lines, w')
          else collect_tty w' (lines @ [line]))"
  by pat_completeness auto
termination
  by (relation "measure (\<lambda>(w, lines). length (stdin w))")
     (auto simp: input_tty_def split: list.splits)

declare collect_tty.simps [simp del]

definition main_tty :: "'a tty_scheme \<Rightarrow> (py_error \<times> 'a tty_scheme) + 'a tty_scheme" where
  "main_tty w =
     (case collect_tty (print prompt w) [] of
        Inl (e, w') \<Rightarrow> Inl (e, w')
      | Inr (lines, w') \<Rightarrow> Inr (formatting lines w'))"

subsection \<open>Specification-level notions\<close>

text \<open>
  The substitution as the specification words it, to be compared with \<open>replace\<close>: every
  occurrence of the character \<open>c\<close> in \<open>s\<close> is replaced by the string \<open>new\<close>, and every
  other character is kept.
\<close>

definition replace_every :: "pychar \<Rightarrow> pystr \<Rightarrow> pystr \<Rightarrow> pystr" where
  "replace_every c new s = concat (map (\<lambda>x. if x = c then new else [x]) s)"

text \<open>The text made of the given output lines, each ended by a newline.\<close>

definition unlines :: "pystr list \<Rightarrow> pystr" where
  "unlines ls = concat (map (\<lambda>l. l @ [newline]) ls)"

section \<open>Properties\<close>

subsection \<open>The escaping transform\<close>

text \<open>With a one-character pattern, Python's \<open>replace\<close> is the character-wise substitution.\<close>

lemma replace_single: "replace s [c] new = replace_every c new s"
  by (induction s) (simp_all add: replace_every_def)

lemma escape_chars:
  "escape line =
     concat (map (\<lambda>x. if x = backslash then [backslash, backslash]
                      else if x = dquote then [backslash, dquote] else [x]) line)"
  by (induction line)
     (simp_all add: escape_def replace_single replace_every_def backslash_def dquote_def)

lemma escape_Nil_iff: "escape b = [] \<longleftrightarrow> b = []"
  by (cases b) (auto simp: escape_chars)

lemma escape_eq_iff: "escape a = escape b \<longleftrightarrow> a = b"
proof
  show "escape a = escape b \<Longrightarrow> a = b"
  proof (induction a arbitrary: b)
    case Nil
    then show ?case
      using escape_Nil_iff [of b] by (simp add: escape_chars)
  next
    case (Cons x xs)
    show ?case
    proof (cases b)
      case Nil
      with Cons.prems show ?thesis
        using escape_Nil_iff [of "x # xs"] escape_Nil_iff [of "[]"] by simp
    next
      case (Cons y ys)
      with Cons.prems have "x = y \<and> escape xs = escape ys"
        by (auto simp: escape_chars backslash_def dquote_def split: if_splits)
      with Cons.IH [of ys] Cons show ?thesis
        by simp
    qed
  qed
qed simp

text \<open>
  C1: for every raw line, escaping replaces every backslash by two backslashes first and
  every double quote by a backslash and a double quote afterwards. The line made of one
  backslash and one double quote escapes to backslash, backslash, backslash, double quote;
  with the two substitutions in the other order it would not.
\<close>

theorem escape_backslash_then_dquote:
  "escape line =
     replace_every dquote [backslash, dquote]
       (replace_every backslash [backslash, backslash] line)
   \<and> escape [backslash, dquote] = [backslash, backslash, backslash, dquote]
   \<and> replace_every backslash [backslash, backslash]
         (replace_every dquote [backslash, dquote] [backslash, dquote])
       = [backslash, backslash, backslash, backslash, dquote]"
  by (simp add: escape_def replace_single)
     (simp add: replace_every_def backslash_def dquote_def)

text \<open>
  C6: escaping is not idempotent. One backslash escapes to two, and escaping again gives
  four: escaping twice differs from escaping once.
\<close>

theorem escape_not_idempotent:
  "escape [backslash] = [backslash, backslash]
   \<and> escape (escape [backslash]) = [backslash, backslash, backslash, backslash]
   \<and> escape (escape [backslash]) \<noteq> escape [backslash]
   \<and> \<not> (\<forall>line. escape (escape line) = escape line)"
proof -
  have once: "escape [backslash] = [backslash, backslash]"
    by (simp add: escape_chars)
  have twice: "escape (escape [backslash]) = [backslash, backslash, backslash, backslash]"
    by (simp add: escape_chars)
  from once twice have differ: "escape (escape [backslash]) \<noteq> escape [backslash]"
    by simp
  then have "\<not> (\<forall>line. escape (escape line) = escape line)"
    by blast
  with once twice differ show ?thesis
    by blast
qed

text \<open>
  C9: escaping is the identity on every raw line that contains neither a backslash nor a
  double quote.
\<close>

theorem escape_identity:
  "backslash \<notin> set line \<Longrightarrow> dquote \<notin> set line \<Longrightarrow> escape line = line"
  by (induction line) (auto simp: escape_chars)

theorem escape_identity_witness:
  "backslash \<notin> set [0x41, 0x20, 0x2B] \<and> dquote \<notin> set [0x41, 0x20, 0x2B]
   \<and> escape [0x41, 0x20, 0x2B] = [0x41, 0x20, 0x2B]"
  using escape_identity [of "[0x41, 0x20, 0x2B]"]
  by (simp add: backslash_def dquote_def)

text \<open>
  C10: escaping is injective. Two distinct raw lines have distinct escaped forms, and so
  distinct fragments: an emitted fragment determines the raw line it came from.
\<close>

theorem escape_injective:
  "a \<noteq> b \<Longrightarrow> escape a \<noteq> escape b \<and> fragment (escape a) \<noteq> fragment (escape b)"
  by (simp add: escape_eq_iff fragment_def)

theorem escape_injective_witness:
  "[backslash] \<noteq> [dquote]
   \<and> escape [backslash] \<noteq> escape [dquote]
   \<and> fragment (escape [backslash]) \<noteq> fragment (escape [dquote])"
  using escape_injective [of "[backslash]" "[dquote]"]
  by (simp add: backslash_def dquote_def)

subsection \<open>The collecting loop\<close>

text \<open>
  The loop in closed form: it appends the longest prefix of non-empty input lines to the
  buffer, and consumes that prefix and the empty line after it, if there is one.
\<close>

lemma collect_eq:
  "collect w acc =
     Inr (acc @ takeWhile (\<lambda>l. l \<noteq> []) (stdin w),
          w\<lparr>stdin := tl (dropWhile (\<lambda>l. l \<noteq> []) (stdin w))\<rparr>)"
proof (induction w acc rule: collect.induct)
  case (1 w lines)
  show ?case
  proof (cases "stdin w")
    case Nil
    then show ?thesis
      by (simp add: collect.simps [of w] input_def)
  next
    case (Cons line rest)
    show ?thesis
    proof (cases "line = []")
      case True
      with Cons show ?thesis
        by (simp add: collect.simps [of w] input_def)
    next
      case False
      from Cons have "input w = Inr (line, w\<lparr>stdin := rest\<rparr>)"
        by (simp add: input_def)
      with False Cons "1.IH" [of "(line, w\<lparr>stdin := rest\<rparr>)" line "w\<lparr>stdin := rest\<rparr>"]
      show ?thesis
        by (simp add: collect.simps [of w])
    qed
  qed
qed

lemma takeWhile_nonempty_stop:
  "[] \<notin> set L \<Longrightarrow> takeWhile (\<lambda>l. l \<noteq> []) (L @ [] # rest) = L"
  by (induction L) auto

lemma dropWhile_nonempty_stop:
  "[] \<notin> set L \<Longrightarrow> dropWhile (\<lambda>l. l \<noteq> []) (L @ [] # rest) = [] # rest"
  by (induction L) auto

lemma takeWhile_nonempty_all:
  "[] \<notin> set L \<Longrightarrow> takeWhile (\<lambda>l. l \<noteq> []) L = L"
  by (induction L) auto

lemma dropWhile_nonempty_all:
  "[] \<notin> set L \<Longrightarrow> dropWhile (\<lambda>l. l \<noteq> []) L = []"
  by (induction L) auto

subsection \<open>The formatting phase and the whole program\<close>

lemma stdout_emit: "stdout (emit ls w) = stdout w @ unlines (map fragment ls)"
  by (induction ls arbitrary: w) (simp_all add: print_def unlines_def)

lemma stdin_emit: "stdin (emit ls w) = stdin w"
  by (induction ls arbitrary: w) (simp_all add: print_def)

lemma stdout_formatting:
  "stdout (formatting lines w) =
     stdout w @ unlines (header # map (\<lambda>line. fragment (escape line)) lines @ [[dquote, dquote]])"
  by (simp add: formatting_def escaped_lines_def stdout_emit print_def unlines_def comp_def)

lemma stdin_formatting: "stdin (formatting lines w) = stdin w"
  by (simp add: formatting_def stdin_emit print_def)

lemma main_eq:
  "main w =
     Inr (formatting (takeWhile (\<lambda>l. l \<noteq> []) (stdin w))
            ((print prompt w)\<lparr>stdin := tl (dropWhile (\<lambda>l. l \<noteq> []) (stdin w))\<rparr>))"
  by (simp add: main_def collect_eq print_def)

text \<open>
  C2: for every sequence \<open>L\<close> of non-empty lines, the collecting loop run on \<open>L\<close> followed
  by an empty line (and whatever comes after it) ends with the buffer \<open>L\<close>, in order; the
  empty line is consumed and is not in the buffer.
\<close>

theorem collect_until_empty_line:
  "[] \<notin> set L \<Longrightarrow>
   collect (w\<lparr>stdin := L @ [] # rest\<rparr>) [] = Inr (L, w\<lparr>stdin := rest\<rparr>)"
proof -
  assume nonempty: "[] \<notin> set L"
  then have buffer: "takeWhile (\<lambda>l. l \<noteq> []) (L @ [] # rest) = L"
    by (rule takeWhile_nonempty_stop)
  from nonempty have left: "tl (dropWhile (\<lambda>l. l \<noteq> []) (L @ [] # rest)) = rest"
    by (simp add: dropWhile_nonempty_stop)
  from buffer left show ?thesis
    by (simp add: collect_eq)
qed

theorem collect_until_empty_line_witness:
  "[] \<notin> set [[0x41, 0x42], [backslash]]
   \<and> collect \<lparr>stdin = [[0x41, 0x42], [backslash], [], [0x43]], stdout = []\<rparr> []
       = Inr ([[0x41, 0x42], [backslash]], \<lparr>stdin = [[0x43]], stdout = []\<rparr>)"
  using collect_until_empty_line
    [where L = "[[0x41, 0x42], [backslash]]" and w = "\<lparr>stdin = [], stdout = []\<rparr>"
       and rest = "[[0x43]]"]
  by simp

text \<open>
  C3: when the input is exhausted before any empty line is read, the collecting loop ends
  normally with the buffer equal to all the lines read (none, for an empty input), and
  the program goes on to format them and ends normally.
\<close>

theorem collect_until_exhausted:
  "[] \<notin> set (stdin w) \<Longrightarrow>
   collect w [] = Inr (stdin w, w\<lparr>stdin := []\<rparr>)
   \<and> main w = Inr (formatting (stdin w) ((print prompt w)\<lparr>stdin := []\<rparr>))"
  by (simp add: main_eq collect_eq takeWhile_nonempty_all dropWhile_nonempty_all)

theorem collect_until_exhausted_witness:
  "[] \<notin> set (stdin \<lparr>stdin = [[0x58], [0x59]], stdout = []\<rparr>)
   \<and> collect \<lparr>stdin = [[0x58], [0x59]], stdout = []\<rparr> []
       = Inr ([[0x58], [0x59]], \<lparr>stdin = [], stdout = []\<rparr>)
   \<and> main \<lparr>stdin = [[0x58], [0x59]], stdout = []\<rparr>
       = Inr \<lparr>stdin = [],
              stdout = prompt @ [newline] @ header @ [newline]
                @ [dquote, 0x58, backslash, 0x6E, dquote, 0x20, 0x2B, newline]
                @ [dquote, 0x59, backslash, 0x6E, dquote, 0x20, 0x2B, newline]
                @ [dquote, dquote, newline]\<rparr>"
  using collect_until_exhausted [of "\<lparr>stdin = [[0x58], [0x59]], stdout = []\<rparr>"]
  by (simp add: formatting_def escaped_lines_def fragment_def print_def escape_chars
        backslash_def dquote_def)

text \<open>
  C8: the collected buffer never contains the empty string: for every input the
  collecting loop ends, and no line of its buffer is empty.
\<close>

theorem collect_no_empty_line:
  "\<exists>buf w'. collect w [] = Inr (buf, w') \<and> [] \<notin> set buf"
proof -
  let ?buf = "takeWhile (\<lambda>l. l \<noteq> []) (stdin w)"
  let ?w' = "w\<lparr>stdin := tl (dropWhile (\<lambda>l. l \<noteq> []) (stdin w))\<rparr>"
  have "collect w [] = Inr (?buf, ?w')"
    by (simp add: collect_eq)
  moreover have "[] \<notin> set ?buf"
    by (auto dest: set_takeWhileD)
  ultimately show ?thesis
    by blast
qed

text \<open>
  C5: the escaping step yields as many escaped lines as there are raw lines, and the
  \<open>i\<close>-th escaped line is the escape of the \<open>i\<close>-th raw line.
\<close>

theorem escaped_lines_pointwise:
  "length (escaped_lines lines) = length lines
   \<and> (\<forall>i<length lines. escaped_lines lines ! i = escape (lines ! i))"
  by (simp add: escaped_lines_def)

theorem escaped_lines_pointwise_witness:
  "length (escaped_lines [[0x41, dquote, 0x42], [backslash]]) = 2
   \<and> escaped_lines [[0x41, dquote, 0x42], [backslash]] ! 0 = [0x41, backslash, dquote, 0x42]
   \<and> escaped_lines [[0x41, dquote, 0x42], [backslash]] ! 1 = [backslash, backslash]"
  using escaped_lines_pointwise [of "[[0x41, dquote, 0x42], [backslash]]"]
  by (simp add: escape_chars backslash_def dquote_def)

text \<open>
  C4: for a buffer of \<open>N\<close> lines the formatting phase writes, after the header, \<open>N\<close>
  content lines, the \<open>i\<close>-th being a double quote, the \<open>i\<close>-th escaped line, a backslash,
  the letter n, a double quote, a space and a plus sign, and then one line of two double
  quotes: \<open>N + 1\<close> formatted lines.
\<close>

theorem formatting_output:
  "stdout (formatting lines w) =
     stdout w @ unlines [header]
       @ unlines (map (\<lambda>line. [dquote] @ escape line @ [backslash, 0x6E, dquote, 0x20, 0x2B]) lines
                  @ [[dquote, dquote]])
   \<and> length (map (\<lambda>line. [dquote] @ escape line @ [backslash, 0x6E, dquote, 0x20, 0x2B]) lines
               @ [[dquote, dquote]]) = length lines + 1"
  by (simp add: stdout_formatting fragment_def unlines_def)

subsection \<open>Runs whose input ends in an exception\<close>

text \<open>
  The loop over an input with an ending, in closed form: it ends normally when an empty
  line is read or when the input is exhausted, and with the exception of the ending
  otherwise, all lines consumed.
\<close>

lemma collect_tty_eq:
  "collect_tty w acc =
     (if [] \<in> set (stdin w) \<or> ending w = EOFError
      then Inr (acc @ takeWhile (\<lambda>l. l \<noteq> []) (stdin w),
                w\<lparr>stdin := tl (dropWhile (\<lambda>l. l \<noteq> []) (stdin w))\<rparr>)
      else Inl (ending w, w\<lparr>stdin := []\<rparr>))"
proof (induction w acc rule: collect_tty.induct)
  case (1 w lines)
  show ?case
  proof (cases "stdin w")
    case Nil
    then show ?thesis
      by (cases "ending w") (simp_all add: collect_tty.simps [of w] input_tty_def)
  next
    case (Cons line rest)
    show ?thesis
    proof (cases "line = []")
      case True
      with Cons show ?thesis
        by (simp add: collect_tty.simps [of w] input_tty_def)
    next
      case False
      from Cons have "input_tty w = Inr (line, w\<lparr>stdin := rest\<rparr>)"
        by (simp add: input_tty_def)
      with False Cons "1.IH" [of "(line, w\<lparr>stdin := rest\<rparr>)" line "w\<lparr>stdin := rest\<rparr>"]
      show ?thesis
        by (simp add: collect_tty.simps [of w])
    qed
  qed
qed

lemma main_tty_eq:
  "main_tty w =
     (if [] \<in> set (stdin w) \<or> ending w = EOFError
      then Inr (formatting (takeWhile (\<lambda>l. l \<noteq> []) (stdin w))
                  ((print prompt w)\<lparr>stdin := tl (dropWhile (\<lambda>l. l \<noteq> []) (stdin w))\<rparr>))
      else Inl (ending w, (print prompt w)\<lparr>stdin := []\<rparr>))"
  by (simp add: main_tty_def collect_tty_eq print_def)

text \<open>
  An input that is simply exhausted is the input of the first model: there the two
  models of \<open>main\<close> end in the same world.
\<close>

lemma main_tty_exhausted:
  "ending w = EOFError \<Longrightarrow> main_tty w = Inr w' \<longleftrightarrow> main w = Inr w'"
  by (simp add: main_tty_eq main_eq)

text \<open>
  C7, as the claim states it, fails: a run can fail. When the user types one line and
  then interrupts the program, \<open>input()\<close> raises \<open>KeyboardInterrupt\<close>, which the handler
  for \<open>EOFError\<close> does not catch: the run ends with that exception, having written the
  prompt only.
\<close>

theorem main_tty_interrupted:
  "main_tty \<lparr>stdin = [[0x41, 0x42]], stdout = [], ending = KeyboardInterrupt\<rparr>
     = Inl (KeyboardInterrupt,
            \<lparr>stdin = [], stdout = prompt @ [newline], ending = KeyboardInterrupt\<rparr>)"
  by (simp add: main_tty_eq print_def)

text \<open>
  C7, amended: two runs on the same input stream (the same lines and the same ending),
  whatever else differs in the world around them, end alike and have written the same
  text. When an empty line is read or the input is exhausted, both end normally, and the
  text is the prompt, the header, one fragment for each line before the empty line and the
  closing fragment. Otherwise both fail with the exception that ended the input, and the
  text is the prompt alone.
\<close>

theorem main_tty_deterministic:
  "stdin w1 = stdin w2 \<Longrightarrow> ending w1 = ending w2 \<Longrightarrow> stdout w1 = stdout w2 \<Longrightarrow>
   (if [] \<in> set (stdin w1) \<or> ending w1 = EOFError
    then \<exists>w1' w2'. main_tty w1 = Inr w1' \<and> main_tty w2 = Inr w2'
           \<and> stdout w1' = stdout w1 @ unlines ([prompt, header]
                @ map (\<lambda>line. fragment (escape line)) (takeWhile (\<lambda>l. l \<noteq> []) (stdin w1))
                @ [[dquote, dquote]])
           \<and> stdout w2' = stdout w1'
    else \<exists>w1' w2'. main_tty w1 = Inl (ending w1, w1') \<and> main_tty w2 = Inl (ending w1, w2')
           \<and> stdout w1' = stdout w1 @ unlines [prompt]
           \<and> stdout w2' = stdout w1')"
proof -
  assume same_in: "stdin w1 = stdin w2" and same_end: "ending w1 = ending w2"
    and same_out: "stdout w1 = stdout w2"
  show ?thesis
  proof (cases "[] \<in> set (stdin w1) \<or> ending w1 = EOFError")
    case True
    let ?lines = "takeWhile (\<lambda>l. l \<noteq> []) (stdin w1)"
    let ?rest = "tl (dropWhile (\<lambda>l. l \<noteq> []) (stdin w1))"
    let ?w1' = "formatting ?lines ((print prompt w1)\<lparr>stdin := ?rest\<rparr>)"
    let ?w2' = "formatting ?lines ((print prompt w2)\<lparr>stdin := ?rest\<rparr>)"
    from True have run1: "main_tty w1 = Inr ?w1'"
      by (simp add: main_tty_eq)
    from True same_in same_end have run2: "main_tty w2 = Inr ?w2'"
      by (simp add: main_tty_eq)
    have text1: "stdout ?w1' = stdout w1 @ unlines ([prompt, header]
        @ map (\<lambda>line. fragment (escape line)) ?lines @ [[dquote, dquote]])"
      by (simp add: stdout_formatting print_def unlines_def)
    have text2: "stdout ?w2' = stdout ?w1'"
      using same_out by (simp add: stdout_formatting print_def)
    from run1 run2 text1 text2 have
      "\<exists>w1' w2'. main_tty w1 = Inr w1' \<and> main_tty w2 = Inr w2'
         \<and> stdout w1' = stdout w1 @ unlines ([prompt, header]
              @ map (\<lambda>line. fragment (escape line)) ?lines @ [[dquote, dquote]])
         \<and> stdout w2' = stdout w1'"
      by blast
    with True show ?thesis
      by simp
  next
    case False
    let ?w1' = "(print prompt w1)\<lparr>stdin := []\<rparr>"
    let ?w2' = "(print prompt w2)\<lparr>stdin := []\<rparr>"
    from False have run1: "main_tty w1 = Inl (ending w1, ?w1')"
      by (simp add: main_tty_eq)
    from False same_in same_end have run2: "main_tty w2 = Inl (ending w1, ?w2')"
      by (simp add: main_tty_eq)
    have text1: "stdout ?w1' = stdout w1 @ unlines [prompt]"
      by (simp add: print_def unlines_def)
    have text2: "stdout ?w2' = stdout ?w1'"
      using same_out by (simp add: print_def)
    from run1 run2 text1 text2 have
      "\<exists>w1' w2'. main_tty w1 = Inl (ending w1, w1') \<and> main_tty w2 = Inl (ending w1, w2')
         \<and> stdout w1' = stdout w1 @ unlines [prompt] \<and> stdout w2' = stdout w1'"
      by blast
    with False show ?thesis
      by simp
  qed
qed

theorem main_tty_deterministic_witness:
  "stdin \<lparr>stdin = [[0x41, 0x42], []], stdout = [], ending = KeyboardInterrupt\<rparr>
     = stdin \<lparr>stdin = [[0x41, 0x42], []], stdout = [], ending = KeyboardInterrupt, \<dots> = True\<rparr>
   \<and> ending \<lparr>stdin = [[0x41, 0x42], []], stdout = [], ending = KeyboardInterrupt\<rparr>
     = ending \<lparr>stdin = [[0x41, 0x42], []], stdout = [], ending = KeyboardInterrupt, \<dots> = True\<rparr>
   \<and> stdout \<lparr>stdin = [[0x41, 0x42], []], stdout = [], ending = KeyboardInterrupt\<rparr>
     = stdout \<lparr>stdin = [[0x41, 0x42], []], stdout = [], ending = KeyboardInterrupt, \<dots> = True\<rparr>
   \<and> (\<exists>w1' w2'.
        main_tty \<lparr>stdin = [[0x41, 0x42], []], stdout = [], ending = KeyboardInterrupt\<rparr> = Inr w1'
      \<and> main_tty \<lparr>stdin = [[0x41, 0x42], []], stdout = [], ending = KeyboardInterrupt, \<dots> = True\<rparr>
          = Inr w2'
      \<and> stdout w1' = prompt @ [newline] @ header @ [newline]
          @ [dquote, 0x41, 0x42, backslash, 0x6E, dquote, 0x20, 0x2B, newline]
          @ [dquote, dquote, newline]
      \<and> stdout w2' = stdout w1')"
  using main_tty_deterministic
    [of "\<lparr>stdin = [[0x41, 0x42], []], stdout = [], ending = KeyboardInterrupt\<rparr>"
        "\<lparr>stdin = [[0x41, 0x42], []], stdout = [], ending = KeyboardInterrupt, \<dots> = True\<rparr>"]
  by (simp add: unlines_def fragment_def escape_chars backslash_def dquote_def)

end
